theory Spec2Isabelle
  imports Complex_Main "HOL-Library.Word"
begin

section \<open>Policy engine (package policy)\<close>

text \<open>
  \<^verbatim>\<open>type Enforcer struct { defaultBranchOnly bool; defaultBranch string;
                         allowList map[string]bool; denyList map[string]bool }\<close>
  The two Go maps are association lists with distinct keys: \<open>map_of\<close> is the
  lookup, \<open>length\<close> is Go's \<open>len\<close>.
\<close>

record Enforcer =
  defaultBranchOnly :: bool
  defaultBranch :: string
  allowList :: "(string \<times> bool) list"
  denyList :: "(string \<times> bool) list"

text \<open>\<^verbatim>\<open>m[k] = v\<close> on a Go map: replace the binding of \<open>k\<close>, or add one.\<close>

fun map_set :: "('k \<times> 'v) list \<Rightarrow> 'k \<Rightarrow> 'v \<Rightarrow> ('k \<times> 'v) list" where
  "map_set [] k v = [(k, v)]"
| "map_set ((k', v') # m) k v = (if k' = k then (k, v) # m else (k', v') # map_set m k v)"

text \<open>\<^verbatim>\<open>for _, repo := range list { m[repo] = true }\<close>\<close>

fun set_all_true :: "(string \<times> bool) list \<Rightarrow> string list \<Rightarrow> (string \<times> bool) list" where
  "set_all_true m [] = m"
| "set_all_true m (repo # rest) = set_all_true (map_set m repo True) rest"

definition NewEnforcer :: "bool \<Rightarrow> string \<Rightarrow> string list \<Rightarrow> string list \<Rightarrow> Enforcer" where
  "NewEnforcer dbo db allow deny =
     \<lparr> defaultBranchOnly = dbo, defaultBranch = db,
       allowList = set_all_true [] allow, denyList = set_all_true [] deny \<rparr>"

text \<open>\<^verbatim>\<open>m[k]\<close> on a \<^verbatim>\<open>map[string]bool\<close>: the zero value \<open>false\<close> for a missing key.\<close>

definition map_get_bool :: "(string \<times> bool) list \<Rightarrow> string \<Rightarrow> bool" where
  "map_get_bool m k = (case map_of m k of None \<Rightarrow> False | Some b \<Rightarrow> b)"

text \<open>
  \<^verbatim>\<open>func (e *Enforcer) Evaluate(repository, ref string) error\<close>:
  \<open>None\<close> is the nil error, \<open>Some msg\<close> the error with its message.
\<close>

definition Evaluate :: "Enforcer \<Rightarrow> string \<Rightarrow> string \<Rightarrow> string option" where
  "Evaluate e repository ref =
     (if map_get_bool (denyList e) repository
      then Some (''repository '' @ repository @ '' is denied by policy'')
      else if length (allowList e) > 0 \<and> \<not> map_get_bool (allowList e) repository
      then Some (''repository '' @ repository @ '' is not in allowlist'')
      else if defaultBranchOnly e
      then (let expectedRef = ''refs/heads/'' @ defaultBranch e
            in if ref \<noteq> expectedRef
               then Some (''only default branch '' @ expectedRef @ '' is allowed, got '' @ ref)
               else None)
      else None)"

section \<open>Shared types (package types)\<close>

text \<open>
  A \<^verbatim>\<open>time.Time\<close> is the number of nanoseconds since the Unix epoch, a
  \<^verbatim>\<open>time.Duration\<close> a number of nanoseconds. \<^verbatim>\<open>time.Time{}\<close>, the zero
  time, is January 1 of year 1, 62135596800 seconds before the epoch.
\<close>

type_synonym time_Time = int
type_synonym time_Duration = int

definition time_Second :: time_Duration where
  "time_Second = 1000000000"

definition time_zero :: time_Time where
  "time_zero = - 62135596800 * time_Second"

text \<open>
  The seconds of a \<^verbatim>\<open>time.Time\<close> are kept in an int64 counted from year 1;
  int64 arithmetic wraps.
\<close>

definition unixToInternal :: int where
  "unixToInternal = 62135596800"

definition wrap64 :: "int \<Rightarrow> int" where
  "wrap64 i = (i + 2 ^ 63) mod 2 ^ 64 - 2 ^ 63"

text \<open>Go's \<^verbatim>\<open>d / 1e9\<close> and \<^verbatim>\<open>d % 1e9\<close> on integers: the quotient is cut toward zero.\<close>

definition quot_Second :: "int \<Rightarrow> int" where
  "quot_Second d = (if 0 \<le> d then d div time_Second else - ((- d) div time_Second))"

definition rem_Second :: "int \<Rightarrow> int" where
  "rem_Second d = d - quot_Second d * time_Second"

text \<open>
  \<^verbatim>\<open>time.Unix(sec, nsec)\<close>: the nanoseconds are brought into \<open>[0, 1e9)\<close>, then the
  seconds are moved to the count from year 1; both additions wrap. \<open>time_Unix sec\<close> is
  \<^verbatim>\<open>time.Unix(sec, 0)\<close>. \<open>Unix t\<close> is \<^verbatim>\<open>t.Unix()\<close> (whole seconds, rounded
  down).
\<close>

definition time_Unix_nsec :: "int \<Rightarrow> int \<Rightarrow> time_Time" where
  "time_Unix_nsec sec nsec =
     (let n = (if nsec < 0 \<or> time_Second \<le> nsec then quot_Second nsec else 0);
          sec1 = wrap64 (sec + n);
          nsec1 = nsec - n * time_Second;
          sec2 = (if nsec1 < 0 then wrap64 (sec1 - 1) else sec1);
          nsec2 = (if nsec1 < 0 then nsec1 + time_Second else nsec1)
      in (wrap64 (sec2 + unixToInternal) - unixToInternal) * time_Second + nsec2)"

definition time_Unix :: "int \<Rightarrow> time_Time" where
  "time_Unix sec = (wrap64 (sec + unixToInternal) - unixToInternal) * time_Second"


text \<open>\<^verbatim>\<open>t.Truncate(time.Second)\<close>: the nanoseconds within the second are dropped.\<close>

definition Truncate_Second :: "time_Time \<Rightarrow> time_Time" where
  "Truncate_Second t = t - t mod time_Second"

text \<open>
  \<^verbatim>\<open>t.Add(d)\<close> on a time without monotonic reading: seconds and nanoseconds are
  added apart, and a sum of seconds that leaves the int64 range is held at the largest
  or the least second.
\<close>

definition time_Add :: "time_Time \<Rightarrow> time_Duration \<Rightarrow> time_Time" where
  "time_Add t d =
     (let ext = t div time_Second + unixToInternal;
          nsec0 = t mod time_Second + rem_Second d;
          dsec = (if time_Second \<le> nsec0 then quot_Second d + 1
                  else if nsec0 < 0 then quot_Second d - 1 else quot_Second d);
          nsec = (if time_Second \<le> nsec0 then nsec0 - time_Second
                  else if nsec0 < 0 then nsec0 + time_Second else nsec0);
          sum = ext + dsec;
          ext' = (if - (2 ^ 63) \<le> sum \<and> sum < 2 ^ 63 then sum
                  else if 0 < dsec then 2 ^ 63 - 1 else - (2 ^ 63 - 1))
      in (ext' - unixToInternal) * time_Second + nsec)"

text \<open>
  \<^verbatim>\<open>t.Sub(u)\<close> and \<^verbatim>\<open>time.Since(u)\<close>: the difference, saturated to the range
  of an int64 number of nanoseconds.
\<close>

definition maxDuration :: time_Duration where
  "maxDuration = 2 ^ 63 - 1"

definition minDuration :: time_Duration where
  "minDuration = - (2 ^ 63)"

definition time_Sub :: "time_Time \<Rightarrow> time_Time \<Rightarrow> time_Duration" where
  "time_Sub t u = max minDuration (min maxDuration (t - u))"

definition time_Since :: "time_Time \<Rightarrow> time_Time \<Rightarrow> time_Duration" where
  "time_Since now u = time_Sub now u"

record VerifiedClaims =
  Repository :: string
  Ref :: string
  Actor :: string
  RunID :: string
  Workflow :: string
  IssuedAt :: time_Time
  ExpiresAt :: time_Time

record AuthRequest =
  OIDCToken :: string

record SubjectDetails =
  subject_Provider :: string
  subject_Repository :: string
  subject_Ref :: string
  subject_Workflow :: string
  subject_RunID :: string
  subject_Actor :: string


section \<open>Decoded JSON values and float64\<close>

text \<open>
  A finite float64 is a sign bit, a mantissa and a binary exponent: the value of
  \<open>Float64 s m e\<close> is \<open>(-1)^s * m * 2^e\<close> (\<open>Float64 True 0 0\<close> is the negative
  zero). \<^verbatim>\<open>encoding/json\<close> decodes every JSON number of an \<^verbatim>\<open>interface{}\<close>
  into a finite float64, so no NaN and no infinity is needed here.
\<close>

datatype float64 = Float64 bool nat int

text \<open>The magnitude rounded to the nearest integer, a tie going to the even one.\<close>

fun round_half_even :: "float64 \<Rightarrow> nat" where
  "round_half_even (Float64 s m e) =
     (if 0 \<le> e then m * 2 ^ nat e
      else (let d = 2 ^ nat (- e); q = m div d; r = m mod d
            in if 2 * r > d \<or> (2 * r = d \<and> odd q) then q + 1 else q))"

text \<open>The magnitude with its fractional part cut off.\<close>

fun magnitude_trunc :: "float64 \<Rightarrow> nat" where
  "magnitude_trunc (Float64 s m e) =
     (if 0 \<le> e then m * 2 ^ nat e else m div 2 ^ nat (- e))"

fun sign_bit :: "float64 \<Rightarrow> bool" where
  "sign_bit (Float64 s m e) = s"

fun is_zero :: "float64 \<Rightarrow> bool" where
  "is_zero (Float64 s m e) = (m = 0)"

text \<open>
  The conversion \<^verbatim>\<open>int64(f)\<close>: truncation toward zero. Go leaves the result
  undefined when the value does not fit; the model takes the result of amd64 there,
  the least int64.
\<close>

definition int64_of_float64 :: "float64 \<Rightarrow> int" where
  "int64_of_float64 f =
     (let t = (if sign_bit f then - int (magnitude_trunc f) else int (magnitude_trunc f))
      in if - (2 ^ 63) \<le> t \<and> t < 2 ^ 63 then t else - (2 ^ 63))"

text \<open>
  The float64 nearest to an integer (\<^verbatim>\<open>encoding/json\<close> writes an int64 as a
  decimal integer and reads it back into a float64): exact below \<open>2^53\<close>, rounded to
  53 bits, ties to even, above.
\<close>

function bit_length :: "nat \<Rightarrow> nat" where
  "bit_length n = (if n = 0 then 0 else Suc (bit_length (n div 2)))"
  by pat_completeness auto
termination
  by (relation "measure id") auto

declare bit_length.simps [simp del]


text \<open>
  The float64 nearest to a sign, a mantissa of any size and an exponent: the mantissa
  is rounded to 53 bits, ties to even. (Overflow and the subnormal range play no part
  where this is used.)
\<close>

fun round_to_float64 :: "float64 \<Rightarrow> float64" where
  "round_to_float64 (Float64 s m e) =
     (let k = bit_length m - 53
      in Float64 s (round_half_even (Float64 s m (- int k))) (e + int k))"

text \<open>
  The fractional part that \<^verbatim>\<open>math.Modf\<close> returns (it has the sign of the number),
  and the float64 product \<^verbatim>\<open>frac * 1e9\<close>.
\<close>

fun Modf_frac :: "float64 \<Rightarrow> float64" where
  "Modf_frac (Float64 s m e) =
     (if 0 \<le> e then Float64 s 0 0 else Float64 s (m mod 2 ^ nat (- e)) e)"

fun times_1e9 :: "float64 \<Rightarrow> float64" where
  "times_1e9 (Float64 s m e) = round_to_float64 (Float64 s (m * 1000000000) e)"

text \<open>Decimal digits of a natural number, as \<^verbatim>\<open>strconv\<close> writes them.\<close>

definition digit_char :: "nat \<Rightarrow> char" where
  "digit_char d = ''0123456789'' ! d"

function decimal :: "nat \<Rightarrow> string" where
  "decimal n = (if n < 10 then [digit_char n] else decimal (n div 10) @ [digit_char (n mod 10)])"
  by pat_completeness auto
termination
  by (relation "measure id") auto

declare decimal.simps [simp del]

text \<open>
  \<^verbatim>\<open>fmt.Sprintf("%.0f", f)\<close>: a minus sign when the sign bit is set, then the
  decimal digits of the magnitude rounded to the nearest integer (ties to even); the
  \<open>f\<close> verb never switches to an exponent.
\<close>

definition Sprintf_f0 :: "float64 \<Rightarrow> string" where
  "Sprintf_f0 f = (if sign_bit f then ''-'' else []) @ decimal (round_half_even f)"

text \<open>
  What \<^verbatim>\<open>encoding/json\<close> puts into an \<^verbatim>\<open>interface{}\<close>: nil, bool, float64,
  string, \<^verbatim>\<open>[]interface{}\<close>, \<^verbatim>\<open>map[string]interface{}\<close>.
\<close>

datatype json =
    JNull
  | JBool bool
  | JNum float64
  | JStr string
  | JArr "json list"
  | JObj "(string \<times> json) list"

text \<open>\<^verbatim>\<open>jwt.MapClaims\<close> and the token header: \<^verbatim>\<open>map[string]interface{}\<close>.\<close>

type_synonym MapClaims = "string \<rightharpoonup> json"

text \<open>
  The type assertions \<^verbatim>\<open>m[key].(string)\<close> and \<^verbatim>\<open>m[key].(float64)\<close> in their
  two-value form: the value (the zero value when the assertion fails) and \<open>ok\<close>. A
  missing key gives the nil interface, on which every assertion fails.
\<close>

fun assert_string :: "json option \<Rightarrow> string \<times> bool" where
  "assert_string (Some (JStr s)) = (s, True)"
| "assert_string _ = ([], False)"

fun assert_float64 :: "json option \<Rightarrow> float64 \<times> bool" where
  "assert_float64 (Some (JNum f)) = (f, True)"
| "assert_float64 _ = (Float64 False 0 0, False)"

section \<open>The JWT library (github.com/golang-jwt/jwt/v5)\<close>

text \<open>
  Modelled from the spec: \<^verbatim>\<open>jwt.Parse\<close>, \<^verbatim>\<open>jwt.GetSigningMethod\<close> and the
  library's claims validator belong to github.com/golang-jwt/jwt/v5 (go.mod pins
  v5.3.1), a dependency whose source is not among the repository's files. The model
  follows the steps the spec lists for a verification (sections 4.2 and 4.5) in the
  order the library runs them inside one call of \<^verbatim>\<open>jwt.Parse\<close>:
  \<^enum> the string is split into its three segments and the header and the claims are
    decoded, without trusting the signature; a string that does not decode is
    malformed;
  \<^enum> the header's \<open>alg\<close> selects the signing method; an \<open>alg\<close> that is no string,
    or names no registered method, ends the parse;
  \<^enum> the caller's key function is run on the unverified token; its error ends the
    parse;
  \<^enum> the signature is checked with the key that the key function returned;
  \<^enum> the registered time claims are validated with the leeway of
    \<^verbatim>\<open>jwt.WithLeeway\<close>: \<open>exp\<close> and \<open>nbf\<close> are optional, a present one must be a
    number (the number zero counts as absent) and is turned into a time by
    \<^verbatim>\<open>newNumericDateFromSeconds\<close>; the token is expired unless
    \<^verbatim>\<open>now.Before(exp.Add(leeway))\<close> and not yet valid when
    \<^verbatim>\<open>now.Before(nbf.Add(-leeway))\<close>; \<open>iat\<close> is not looked at (the library
    checks it only under \<^verbatim>\<open>jwt.WithIssuedAt\<close>);
  \<^enum> only then \<open>Valid\<close> is set.
  The cryptography is a parameter: \<open>verify_sig token key\<close> says whether the token's
  signature verifies under the key with the token's method.
\<close>

datatype SigningMethod =
    SigningMethodRSA
  | SigningMethodRSAPSS
  | SigningMethodHMAC
  | SigningMethodECDSA
  | SigningMethodEd25519
  | SigningMethodNone

definition GetSigningMethod :: "string \<Rightarrow> SigningMethod option" where
  "GetSigningMethod alg =
     (if alg = ''RS256'' \<or> alg = ''RS384'' \<or> alg = ''RS512'' then Some SigningMethodRSA
      else if alg = ''PS256'' \<or> alg = ''PS384'' \<or> alg = ''PS512'' then Some SigningMethodRSAPSS
      else if alg = ''HS256'' \<or> alg = ''HS384'' \<or> alg = ''HS512'' then Some SigningMethodHMAC
      else if alg = ''ES256'' \<or> alg = ''ES384'' \<or> alg = ''ES512'' then Some SigningMethodECDSA
      else if alg = ''EdDSA'' then Some SigningMethodEd25519
      else if alg = ''none'' then Some SigningMethodNone
      else None)"

text \<open>
  A token string, seen through its decoding: \<open>None\<close> is a string that is not three
  base64url segments with a JSON object in each of the first two.
\<close>

record segments =
  seg_Header :: MapClaims
  seg_Claims :: MapClaims
  seg_Signature :: string

type_synonym tokenString = "segments option"

record Token =
  Header :: MapClaims
  Claims :: MapClaims
  Signature :: string
  Method :: SigningMethod
  Valid :: bool

datatype claims_error =
    ErrInvalidType string
  | ErrTokenExpired
  | ErrTokenNotValidYet

datatype 'e jwt_error =
    ErrTokenMalformed
  | ErrAlgUnspecified
  | ErrAlgUnavailable
  | ErrTokenUnverifiable 'e
  | ErrTokenSignatureInvalid
  | ErrTokenInvalidClaims "claims_error list"

text \<open>
  \<^verbatim>\<open>newNumericDateFromSeconds(f)\<close> of the library:
  \<^verbatim>\<open>round, frac := math.Modf(f)\<close>, then
  \<^verbatim>\<open>time.Unix(int64(round), int64(frac*1e9))\<close>, truncated to the second.
\<close>

definition newNumericDateFromSeconds :: "float64 \<Rightarrow> time_Time" where
  "newNumericDateFromSeconds f =
     Truncate_Second
       (time_Unix_nsec (int64_of_float64 f) (int64_of_float64 (times_1e9 (Modf_frac f))))"

definition parseNumericDate :: "MapClaims \<Rightarrow> string \<Rightarrow> claims_error + time_Time option" where
  "parseNumericDate m key =
     (case m key of
        None \<Rightarrow> Inr None
      | Some (JNum f) \<Rightarrow> if is_zero f then Inr None else Inr (Some (newNumericDateFromSeconds f))
      | Some _ \<Rightarrow> Inl (ErrInvalidType key))"

definition verifyExpiresAt :: "time_Time \<Rightarrow> time_Duration \<Rightarrow> MapClaims \<Rightarrow> claims_error list" where
  "verifyExpiresAt now leeway m =
     (case parseNumericDate m ''exp'' of
        Inl e \<Rightarrow> [e]
      | Inr None \<Rightarrow> []
      | Inr (Some expiry) \<Rightarrow> if now < time_Add expiry leeway then [] else [ErrTokenExpired])"

definition verifyNotBefore :: "time_Time \<Rightarrow> time_Duration \<Rightarrow> MapClaims \<Rightarrow> claims_error list" where
  "verifyNotBefore now leeway m =
     (case parseNumericDate m ''nbf'' of
        Inl e \<Rightarrow> [e]
      | Inr None \<Rightarrow> []
      | Inr (Some nbf) \<Rightarrow>
          if now < time_Add nbf (wrap64 (- leeway)) then [ErrTokenNotValidYet] else [])"

definition Validator_Validate :: "time_Time \<Rightarrow> time_Duration \<Rightarrow> MapClaims \<Rightarrow> claims_error list" where
  "Validator_Validate now leeway m = verifyExpiresAt now leeway m @ verifyNotBefore now leeway m"

text \<open>
  \<open>keyFunc\<close> returns the key or its error together with what it did (\<open>'x\<close>: for the
  verifier, the key cache it leaves and the lookups it made); \<open>x0\<close> stands for "the
  key function was not run".
\<close>

definition jwt_Parse ::
  "(Token \<Rightarrow> 'k \<Rightarrow> bool) \<Rightarrow> time_Time \<Rightarrow> time_Duration \<Rightarrow> tokenString \<Rightarrow>
   (Token \<Rightarrow> ('e + 'k) \<times> 'x) \<Rightarrow> 'x \<Rightarrow> ('e jwt_error + Token) \<times> 'x" where
  "jwt_Parse verify_sig now leeway tokenString keyFunc x0 =
     (case tokenString of
        None \<Rightarrow> (Inl ErrTokenMalformed, x0)
      | Some seg \<Rightarrow>
          (case assert_string (seg_Header seg ''alg'') of
             (alg, False) \<Rightarrow> (Inl ErrAlgUnspecified, x0)
           | (alg, True) \<Rightarrow>
               (case GetSigningMethod alg of
                  None \<Rightarrow> (Inl ErrAlgUnavailable, x0)
                | Some method \<Rightarrow>
                    (let token = \<lparr> Header = seg_Header seg, Claims = seg_Claims seg,
                                   Signature = seg_Signature seg, Method = method,
                                   Valid = False \<rparr>
                     in case keyFunc token of
                          (Inl e, x) \<Rightarrow> (Inl (ErrTokenUnverifiable e), x)
                        | (Inr key, x) \<Rightarrow>
                            if \<not> verify_sig token key then (Inl ErrTokenSignatureInvalid, x)
                            else (case Validator_Validate now leeway (Claims token) of
                                    [] \<Rightarrow> (Inr (token\<lparr> Valid := True \<rparr>), x)
                                  | e # es \<Rightarrow> (Inl (ErrTokenInvalidClaims (e # es)), x))))))"

section \<open>Key cache (package oidc, JWKSCache)\<close>

text \<open>\<^verbatim>\<open>rsa.PublicKey\<close>: the modulus, and the exponent as a 64-bit Go \<open>int\<close>.\<close>

record rsa_PublicKey =
  rsa_N :: nat
  rsa_E :: "64 word"

text \<open>
  \<^verbatim>\<open>base64.RawURLEncoding.DecodeString\<close> (standard library): the URL alphabet
  without padding; line breaks are skipped, any other character outside the alphabet
  and a dangling single character are errors; the unused low bits of the last
  character are dropped.
\<close>

definition b64url_value :: "char \<Rightarrow> nat option" where
  "b64url_value c =
     (let n = (of_char c :: nat)
      in if 65 \<le> n \<and> n \<le> 90 then Some (n - 65)
         else if 97 \<le> n \<and> n \<le> 122 then Some (n - 71)
         else if 48 \<le> n \<and> n \<le> 57 then Some (n + 4)
         else if n = 45 then Some 62
         else if n = 95 then Some 63
         else None)"

fun decode_quanta :: "nat list \<Rightarrow> nat list option" where
  "decode_quanta (a # b # c # d # rest) =
     (case decode_quanta rest of
        None \<Rightarrow> None
      | Some bs \<Rightarrow> Some ((a * 4 + b div 16) # ((b mod 16) * 16 + c div 4) # ((c mod 4) * 64 + d) # bs))"
| "decode_quanta [a, b, c] = Some [a * 4 + b div 16, (b mod 16) * 16 + c div 4]"
| "decode_quanta [a, b] = Some [a * 4 + b div 16]"
| "decode_quanta [a] = None"
| "decode_quanta [] = Some []"

definition DecodeString :: "string \<Rightarrow> nat list option" where
  "DecodeString s =
     (case those (map b64url_value (filter (\<lambda>c. of_char c \<noteq> (10::nat) \<and> of_char c \<noteq> (13::nat)) s)) of
        None \<Rightarrow> None
      | Some vs \<Rightarrow> decode_quanta vs)"

datatype parse_key_error = FailedToDecodeN | FailedToDecodeE

text \<open>
  \<^verbatim>\<open>parseRSAPublicKey\<close>: \<open>n\<close> is the big-endian number of \<open>nBytes\<close>; \<open>e\<close> is
  accumulated in a Go \<open>int\<close>, which wraps.
\<close>

definition parseRSAPublicKey :: "string \<Rightarrow> string \<Rightarrow> parse_key_error + rsa_PublicKey" where
  "parseRSAPublicKey nStr eStr =
     (case DecodeString nStr of
        None \<Rightarrow> Inl FailedToDecodeN
      | Some nBytes \<Rightarrow>
          (case DecodeString eStr of
             None \<Rightarrow> Inl FailedToDecodeE
           | Some eBytes \<Rightarrow>
               Inr \<lparr> rsa_N = foldl (\<lambda>n b. n * 256 + b) 0 nBytes,
                     rsa_E = foldl (\<lambda>e b. e * 256 + of_nat b) 0 eBytes \<rparr>))"

text \<open>One entry of the \<open>keys\<close> array of the JWKS document, as \<^verbatim>\<open>json.Unmarshal\<close> fills it.\<close>

record jwk =
  Kid :: string
  Kty :: string
  Use :: string
  jwk_N :: string
  jwk_E :: string

text \<open>
  What the network answers to the GET of \<open>fetchJWKS\<close>: the request cannot be built,
  the client's \<open>Do\<close> fails, or a response arrives with a status code and a body; the
  body cannot be read, or it is read and \<^verbatim>\<open>json.Unmarshal\<close> fails on it (\<open>None\<close>)
  or yields the entries.
\<close>

datatype body_result = ReadFailed | Payload "jwk list option"

datatype http_result = NewRequestFailed | DoFailed | Response nat body_result

datatype fetch_error =
    FailedToCreateRequest
  | FailedToFetchJWKS
  | UnexpectedStatusCode nat
  | FailedToReadBody
  | FailedToUnmarshalJWKS

datatype getkey_error = FetchError fetch_error | KidNotFound string

record JWKSCache =
  url :: string
  ttl :: time_Duration
  keys :: "string \<rightharpoonup> rsa_PublicKey"
  fetchedAt :: time_Time

definition NewJWKSCache :: "string \<Rightarrow> time_Duration \<Rightarrow> JWKSCache" where
  "NewJWKSCache u t = \<lparr> url = u, ttl = t, keys = Map.empty, fetchedAt = time_zero \<rparr>"

text \<open>The loop of \<open>fetchJWKS\<close> over \<open>jwks.Keys\<close>, filling \<open>newKeys\<close>.\<close>

fun parse_keys :: "(string \<rightharpoonup> rsa_PublicKey) \<Rightarrow> jwk list \<Rightarrow> (string \<rightharpoonup> rsa_PublicKey)" where
  "parse_keys newKeys [] = newKeys"
| "parse_keys newKeys (key # rest) =
     (if Kty key \<noteq> ''RSA'' then parse_keys newKeys rest
      else (case parseRSAPublicKey (jwk_N key) (jwk_E key) of
              Inl err \<Rightarrow> parse_keys newKeys rest
            | Inr pubKey \<Rightarrow> parse_keys (newKeys(Kid key \<mapsto> pubKey)) rest))"

text \<open>
  \<open>fetchJWKS\<close>: the error (\<open>None\<close> is nil) and the cache as the call leaves it. \<open>now\<close>
  is the clock.
\<close>

definition fetchJWKS :: "JWKSCache \<Rightarrow> time_Time \<Rightarrow> http_result \<Rightarrow> fetch_error option \<times> JWKSCache" where
  "fetchJWKS c now http =
     (case http of
        NewRequestFailed \<Rightarrow> (Some FailedToCreateRequest, c)
      | DoFailed \<Rightarrow> (Some FailedToFetchJWKS, c)
      | Response code body \<Rightarrow>
          if code \<noteq> 200 then (Some (UnexpectedStatusCode code), c)
          else (case body of
                  ReadFailed \<Rightarrow> (Some FailedToReadBody, c)
                | Payload None \<Rightarrow> (Some FailedToUnmarshalJWKS, c)
                | Payload (Some entries) \<Rightarrow>
                    (None, c\<lparr> keys := parse_keys Map.empty entries, fetchedAt := now \<rparr>)))"

text \<open>
  The test both locked sections of \<open>GetKey\<close> make:
  \<^verbatim>\<open>key, exists := c.keys[kid]; exists && time.Since(c.fetchedAt) < c.ttl\<close>.
\<close>

definition cached :: "JWKSCache \<Rightarrow> time_Time \<Rightarrow> string \<Rightarrow> rsa_PublicKey option" where
  "cached c now kid =
     (case keys c kid of
        None \<Rightarrow> None
      | Some key \<Rightarrow> if time_Since now (fetchedAt c) < ttl c then Some key else None)"

text \<open>
  \<open>GetKey\<close>, run alone (no other goroutine changes the cache between the read-locked
  check and the write-locked one): the key or the error, and the cache it leaves.
\<close>

definition GetKey ::
  "JWKSCache \<Rightarrow> time_Time \<Rightarrow> http_result \<Rightarrow> string \<Rightarrow> (getkey_error + rsa_PublicKey) \<times> JWKSCache" where
  "GetKey c now http kid =
     (case cached c now kid of
        Some key \<Rightarrow> (Inr key, c)
      | None \<Rightarrow>
          (case cached c now kid of
             Some key \<Rightarrow> (Inr key, c)
           | None \<Rightarrow>
               (case fetchJWKS c now http of
                  (Some err, c') \<Rightarrow> (Inl (FetchError err), c')
                | (None, c') \<Rightarrow>
                    (case keys c' kid of
                       None \<Rightarrow> (Inl (KidNotFound kid), c')
                     | Some key \<Rightarrow> (Inr key, c')))))"

section \<open>Assertion verifier (package oidc, GitHubVerifier)\<close>

record GitHubVerifier =
  issuer :: string
  audience :: string
  clockSkew :: time_Duration
  jwksCache :: JWKSCache

definition NewGitHubVerifier ::
  "string \<Rightarrow> string \<Rightarrow> time_Duration \<Rightarrow> time_Duration \<Rightarrow> GitHubVerifier" where
  "NewGitHubVerifier iss aud skew jwksTTL =
     \<lparr> issuer = iss, audience = aud, clockSkew = skew,
       jwksCache = NewJWKSCache (iss @ ''/.well-known/jwks'') jwksTTL \<rparr>"

datatype keyfunc_error =
    UnexpectedSigningMethod "json option"
  | MissingOrInvalidKid
  | FailedToGetPublicKey getkey_error

datatype verify_error =
    FailedToVerifyToken "keyfunc_error jwt_error"
  | TokenIsInvalid
  | InvalidIssuer string string
  | InvalidAudienceType
  | AudienceDoesNotMatch string
  | MissingRepository
  | MissingRef
  | MissingActor
  | MissingRunID
  | MissingWorkflow

text \<open>
  The key function that \<open>Verify\<close> hands to \<^verbatim>\<open>jwt.Parse\<close>. Next to its result it
  returns the cache as it leaves it and the list of key identifiers it passed to
  \<open>GetKey\<close>.
\<close>

definition Verify_keyFunc ::
  "JWKSCache \<Rightarrow> time_Time \<Rightarrow> http_result \<Rightarrow> Token \<Rightarrow>
   (keyfunc_error + rsa_PublicKey) \<times> (JWKSCache \<times> string list)" where
  "Verify_keyFunc c now http token =
     (if Method token \<noteq> SigningMethodRSA
      then (Inl (UnexpectedSigningMethod (Header token ''alg'')), (c, []))
      else (case assert_string (Header token ''kid'') of
              (kid, False) \<Rightarrow> (Inl MissingOrInvalidKid, (c, []))
            | (kid, True) \<Rightarrow>
                (case GetKey c now http kid of
                   (Inl err, c') \<Rightarrow> (Inl (FailedToGetPublicKey err), (c', [kid]))
                 | (Inr publicKey, c') \<Rightarrow> (Inr publicKey, (c', [kid])))))"

text \<open>The loop of \<open>extractAudience\<close> over an array: the items that are strings.\<close>

fun string_items :: "json list \<Rightarrow> string list" where
  "string_items [] = []"
| "string_items (JStr s # rest) = s # string_items rest"
| "string_items (item # rest) = string_items rest"

definition extractAudience :: "MapClaims \<Rightarrow> verify_error + string list" where
  "extractAudience claims =
     (case claims ''aud'' of
        Some (JStr a) \<Rightarrow> Inr [a]
      | Some (JArr a) \<Rightarrow> Inr (string_items a)
      | _ \<Rightarrow> Inl InvalidAudienceType)"

fun containsAudience :: "string list \<Rightarrow> string \<Rightarrow> bool" where
  "containsAudience [] expected = False"
| "containsAudience (aud # audiences) expected =
     (if aud = expected then True else containsAudience audiences expected)"

definition extractRunID :: "MapClaims \<Rightarrow> string" where
  "extractRunID claims =
     (case assert_string (claims ''run_id'') of
        (runID, True) \<Rightarrow> runID
      | (_, False) \<Rightarrow>
          (case assert_float64 (claims ''run_id'') of
             (runID, True) \<Rightarrow> Sprintf_f0 runID
           | (_, False) \<Rightarrow> []))"

definition extractTimestamp :: "MapClaims \<Rightarrow> string \<Rightarrow> time_Time" where
  "extractTimestamp claims key =
     (case assert_float64 (claims key) of
        (val, True) \<Rightarrow> time_Unix (int64_of_float64 val)
      | (_, False) \<Rightarrow> time_zero)"

text \<open>
  The part of \<open>Verify\<close> after \<^verbatim>\<open>jwt.Parse\<close> has returned a valid token (lines
  80 to 140): issuer, audience, the required claims, the timestamps.
\<close>

definition Verify_claims :: "GitHubVerifier \<Rightarrow> MapClaims \<Rightarrow> verify_error + VerifiedClaims" where
  "Verify_claims v claims =
     (case assert_string (claims ''iss'') of (iss, ok) \<Rightarrow>
      if \<not> ok \<or> iss \<noteq> issuer v then Inl (InvalidIssuer (issuer v) iss)
      else (case extractAudience claims of
        Inl err \<Rightarrow> Inl err
      | Inr aud \<Rightarrow>
      if \<not> containsAudience aud (audience v) then Inl (AudienceDoesNotMatch (audience v))
      else (case assert_string (claims ''repository'') of (repository, ok) \<Rightarrow>
      if \<not> ok \<or> repository = [] then Inl MissingRepository
      else (case assert_string (claims ''ref'') of (ref, ok) \<Rightarrow>
      if \<not> ok \<or> ref = [] then Inl MissingRef
      else (case assert_string (claims ''actor'') of (actor, ok) \<Rightarrow>
      if \<not> ok \<or> actor = [] then Inl MissingActor
      else (let runID = extractRunID claims in
      if runID = [] then Inl MissingRunID
      else (let workflow =
                  (case assert_string (claims ''workflow_ref'') of
                     (wref, True) \<Rightarrow> wref
                   | (_, False) \<Rightarrow>
                       (case assert_string (claims ''job_workflow_ref'') of
                          (jwref, True) \<Rightarrow> jwref
                        | (_, False) \<Rightarrow> []))
            in
      if workflow = [] then Inl MissingWorkflow
      else (let iat = extractTimestamp claims ''iat'';
                expiry = extractTimestamp claims ''exp''
            in Inr \<lparr> Repository = repository, Ref = ref, Actor = actor, RunID = runID,
                     Workflow = workflow, IssuedAt = iat, ExpiresAt = expiry \<rparr>))))))))"

text \<open>
  \<open>Verify\<close>. \<open>rsa_verify\<close> is the signature check of the RSA method, \<open>now\<close> the clock,
  \<open>http\<close> what the key endpoint answers if it is asked. The result comes with the
  verifier as the call leaves it (its key cache is the only part that changes) and
  with the key identifiers passed to \<open>GetKey\<close>, in order. The type assertion of
  \<^verbatim>\<open>token.Claims\<close> to \<^verbatim>\<open>jwt.MapClaims\<close> cannot fail, \<^verbatim>\<open>jwt.Parse\<close> decodes
  into that type.
\<close>

definition Verify ::
  "(Token \<Rightarrow> rsa_PublicKey \<Rightarrow> bool) \<Rightarrow> GitHubVerifier \<Rightarrow> time_Time \<Rightarrow> http_result \<Rightarrow>
   tokenString \<Rightarrow> (verify_error + VerifiedClaims) \<times> GitHubVerifier \<times> string list" where
  "Verify rsa_verify v now http tokenString =
     (case jwt_Parse rsa_verify now (clockSkew v) tokenString
             (Verify_keyFunc (jwksCache v) now http) (jwksCache v, []) of
        (Inl err, (c, lookups)) \<Rightarrow> (Inl (FailedToVerifyToken err), v\<lparr> jwksCache := c \<rparr>, lookups)
      | (Inr token, (c, lookups)) \<Rightarrow>
          if \<not> Valid token then (Inl TokenIsInvalid, v\<lparr> jwksCache := c \<rparr>, lookups)
          else (Verify_claims v (Claims token), v\<lparr> jwksCache := c \<rparr>, lookups))"

section \<open>Credential minter (package token)\<close>






datatype mint_error = FailedToSignToken





section \<open>Rate limiter (package ratelimit)\<close>

text \<open>
  Modelled from the spec: \<^verbatim>\<open>rate.Limiter\<close>, \<^verbatim>\<open>rate.NewLimiter\<close> and its
  \<^verbatim>\<open>Allow\<close> belong to golang.org/x/time/rate, a dependency whose source is not
  among the repository's files. The spec (section 4.3) describes it: "a classic token
  bucket per key - capacity equal to configured burst, refilled continuously at the
  configured rate, consuming one token per allowed call; returns false (and consumes
  nothing) when no token is available". A new bucket is full. The rate is in tokens
  per second, the clock in nanoseconds.
\<close>

record rate_Limiter =
  rate_limit :: rat
  rate_burst :: int
  rate_tokens :: rat
  rate_last :: time_Time

definition rate_NewLimiter :: "rat \<Rightarrow> int \<Rightarrow> rate_Limiter" where
  "rate_NewLimiter r b =
     \<lparr> rate_limit = r, rate_burst = b, rate_tokens = of_int b, rate_last = time_zero \<rparr>"

definition rate_Allow :: "rate_Limiter \<Rightarrow> time_Time \<Rightarrow> bool \<times> rate_Limiter" where
  "rate_Allow lm now =
     (let elapsed = max 0 (now - rate_last lm);
          tokens = min (of_int (rate_burst lm))
                       (rate_tokens lm + rate_limit lm * of_int elapsed / of_int time_Second)
      in if 1 \<le> tokens
         then (True, lm\<lparr> rate_tokens := tokens - 1, rate_last := max now (rate_last lm) \<rparr>)
         else (False, lm))"

text \<open>
  \<^verbatim>\<open>Limiter\<close> of the repository: one bucket per repository, made on first use.
  The map from repository to bucket is an association list with distinct keys; a
  bucket that \<open>Allow\<close> changes is written back under its key, as the shared pointer
  of the source makes the change visible through the map.
\<close>

record Limiter =
  limiters :: "(string \<times> rate_Limiter) list"
  rps :: rat
  burst :: int

definition NewLimiter :: "rat \<Rightarrow> int \<Rightarrow> Limiter" where
  "NewLimiter r b = \<lparr> limiters = [], rps = r, burst = b \<rparr>"

definition getLimiter :: "Limiter \<Rightarrow> string \<Rightarrow> rate_Limiter \<times> Limiter" where
  "getLimiter l repository =
     (case map_of (limiters l) repository of
        Some limiter \<Rightarrow> (limiter, l)
      | None \<Rightarrow>
          (case map_of (limiters l) repository of
             Some limiter \<Rightarrow> (limiter, l)
           | None \<Rightarrow>
               (let limiter = rate_NewLimiter (rps l) (burst l)
                in (limiter, l\<lparr> limiters := map_set (limiters l) repository limiter \<rparr>))))"

definition Allow :: "Limiter \<Rightarrow> time_Time \<Rightarrow> string \<Rightarrow> bool \<times> Limiter" where
  "Allow l now repository =
     (case getLimiter l repository of (limiter, l') \<Rightarrow>
        (case rate_Allow limiter now of (ok, limiter') \<Rightarrow>
           (ok, l'\<lparr> limiters := map_set (limiters l') repository limiter' \<rparr>)))"

definition Reset :: "Limiter \<Rightarrow> Limiter" where
  "Reset l = l\<lparr> limiters := [] \<rparr>"

definition GetLimiterCount :: "Limiter \<Rightarrow> nat" where
  "GetLimiterCount l = length (limiters l)"

text \<open>Calls of \<open>Allow\<close> for one repository, one after the other, at the given clock readings.\<close>

fun Allow_calls :: "Limiter \<Rightarrow> string \<Rightarrow> time_Time list \<Rightarrow> bool list \<times> Limiter" where
  "Allow_calls l repository [] = ([], l)"
| "Allow_calls l repository (now # rest) =
     (case Allow l now repository of (ok, l') \<Rightarrow>
        (case Allow_calls l' repository rest of (oks, l'') \<Rightarrow> (ok # oks, l'')))"

section \<open>Token-exchange handler (package httpapi)\<close>

text \<open>
  The collaborators of the \<open>Server\<close> struct, each by the function its method computes:
  \<^verbatim>\<open>verifier.Verify\<close> (an interface in the source), \<^verbatim>\<open>limiter.Allow\<close> (which
  changes the limiter, of type \<open>'l\<close>), \<^verbatim>\<open>policy.Evaluate\<close>, \<^verbatim>\<open>minter.Mint\<close>.
  Errors are their messages.
\<close>

record 'l Server =
  verifier :: "string \<Rightarrow> string + VerifiedClaims"
  limiter :: "'l \<Rightarrow> string \<Rightarrow> bool \<times> 'l"
  policy :: "string \<Rightarrow> string \<Rightarrow> string option"
  minter :: "VerifiedClaims \<Rightarrow> string + (string \<times> time_Time)"

text \<open>The request body after \<^verbatim>\<open>json.NewDecoder(r.Body).Decode(&req)\<close>.\<close>

datatype decoded_body = DecodeError | Decoded AuthRequest

text \<open>The calls the handler makes on its collaborators, with their arguments.\<close>

datatype stage_call =
    CallVerify string
  | CallAllow string
  | CallEvaluate string string
  | CallMint VerifiedClaims

text \<open>
  \<^verbatim>\<open>types.ErrorResponse\<close> with its status, and \<^verbatim>\<open>types.AuthResponse\<close>. The
  fields \<open>ExpiresIn\<close> and \<open>IssuedAt\<close> of the latter are rendered from the wall clock
  when the response is written; the model keeps the expiry that \<open>Mint\<close> returned.
\<close>

datatype response =
    ErrorResponse nat string string
  | AuthResponse string time_Time string SubjectDetails

definition respondError :: "nat \<Rightarrow> string \<Rightarrow> string \<Rightarrow> response" where
  "respondError status errorCode message = ErrorResponse status errorCode message"

text \<open>
  \<open>handleGitHubOIDC\<close>: the response, the calls made on the collaborators in the order
  they were made, and the limiter as the request leaves it.
\<close>

definition handleGitHubOIDC ::
  "'l Server \<Rightarrow> 'l \<Rightarrow> decoded_body \<Rightarrow> response \<times> stage_call list \<times> 'l" where
  "handleGitHubOIDC s l body =
     (case body of
        DecodeError \<Rightarrow>
          (respondError 400 ''invalid_request'' ''invalid JSON in request body'', [], l)
      | Decoded req \<Rightarrow>
          if OIDCToken req = []
          then (respondError 400 ''invalid_request'' ''missing oidc_token field'', [], l)
          else (case verifier s (OIDCToken req) of
                  Inl err \<Rightarrow>
                    (respondError 401 ''invalid_token'' ''failed to verify OIDC token'',
                     [CallVerify (OIDCToken req)], l)
                | Inr claims \<Rightarrow>
                    (case limiter s l (Repository claims) of (allowed, l') \<Rightarrow>
                       if \<not> allowed
                       then (respondError 429 ''rate_limited'' ''rate limit exceeded for repository'',
                             [CallVerify (OIDCToken req), CallAllow (Repository claims)], l')
                       else (case policy s (Repository claims) (Ref claims) of
                               Some err \<Rightarrow>
                                 (respondError 403 ''policy_violation'' err,
                                  [CallVerify (OIDCToken req), CallAllow (Repository claims),
                                   CallEvaluate (Repository claims) (Ref claims)], l')
                             | None \<Rightarrow>
                                 (case minter s claims of
                                    Inl err \<Rightarrow>
                                      (respondError 500 ''internal_error'' ''failed to create access token'',
                                       [CallVerify (OIDCToken req), CallAllow (Repository claims),
                                        CallEvaluate (Repository claims) (Ref claims), CallMint claims], l')
                                  | Inr (accessToken, expiresAt) \<Rightarrow>
                                      (AuthResponse accessToken expiresAt ''Bearer''
                                         \<lparr> subject_Provider = ''github_actions'',
                                           subject_Repository = Repository claims,
                                           subject_Ref = Ref claims,
                                           subject_Workflow = Workflow claims,
                                           subject_RunID = RunID claims,
                                           subject_Actor = Actor claims \<rparr>,
                                       [CallVerify (OIDCToken req), CallAllow (Repository claims),
                                        CallEvaluate (Repository claims) (Ref claims), CallMint claims],
                                       l'))))))"

text \<open>What a response and a call are, for the statements below.\<close>

fun error_code :: "response \<Rightarrow> string option" where
  "error_code (ErrorResponse status errorCode message) = Some errorCode"
| "error_code (AuthResponse accessToken expiresAt tokenType subject) = None"

datatype stage = StageVerify | StageRateLimit | StagePolicy | StageMint

fun stage_of :: "stage_call \<Rightarrow> stage" where
  "stage_of (CallVerify t) = StageVerify"
| "stage_of (CallAllow r) = StageRateLimit"
| "stage_of (CallEvaluate r f) = StagePolicy"
| "stage_of (CallMint c) = StageMint"

section \<open>Example inputs\<close>

text \<open>
  A verifier whose cache holds one key, \<open>k1\<close>, fetched at the epoch and fresh for an
  hour; a token header naming that key with \<open>RS256\<close>; a complete set of claims; a
  signature check that accepts; a clock at 1000 seconds.
\<close>

definition fixture_key :: rsa_PublicKey where
  "fixture_key = \<lparr> rsa_N = 3233, rsa_E = 17 \<rparr>"

definition fixture_cache :: JWKSCache where
  "fixture_cache =
     \<lparr> url = ''https://token.actions.githubusercontent.com/.well-known/jwks'',
       ttl = 3600 * time_Second, keys = [''k1'' \<mapsto> fixture_key], fetchedAt = 0 \<rparr>"

definition fixture_verifier :: GitHubVerifier where
  "fixture_verifier =
     \<lparr> issuer = ''https://token.actions.githubusercontent.com'', audience = ''robohub'',
       clockSkew = 60 * time_Second, jwksCache = fixture_cache \<rparr>"


definition fixture_claims :: MapClaims where
  "fixture_claims =
     [''iss'' \<mapsto> JStr ''https://token.actions.githubusercontent.com'',
      ''aud'' \<mapsto> JStr ''robohub'',
      ''repository'' \<mapsto> JStr ''owner/repo'',
      ''ref'' \<mapsto> JStr ''refs/heads/main'',
      ''actor'' \<mapsto> JStr ''octocat'',
      ''run_id'' \<mapsto> JStr ''123456789'',
      ''workflow_ref'' \<mapsto> JStr ''owner/repo/.github/workflows/ci.yml@refs/heads/main'',
      ''iat'' \<mapsto> JNum (Float64 False 940 0),
      ''exp'' \<mapsto> JNum (Float64 False 2000 0)]"

definition accept_all :: "Token \<Rightarrow> rsa_PublicKey \<Rightarrow> bool" where
  "accept_all token key = True"


definition fixture_now :: time_Time where
  "fixture_now = 1000 * time_Second"

section \<open>Vocabulary for the statements on the key cache\<close>

text \<open>
  A fetch that ends in an error: the request cannot be built, the transport fails,
  the status is not 200, the body cannot be read, or the payload does not decode.
\<close>

definition fetch_fails :: "http_result \<Rightarrow> bool" where
  "fetch_fails http =
     (case http of
        NewRequestFailed \<Rightarrow> True
      | DoFailed \<Rightarrow> True
      | Response code body \<Rightarrow> code \<noteq> 200 \<or> body = ReadFailed \<or> body = Payload None)"

text \<open>
  The key an entry contributes to the cache: none when its type is not \<open>RSA\<close> or its
  modulus or exponent does not decode.
\<close>

definition usable_key :: "jwk \<Rightarrow> (string \<times> rsa_PublicKey) option" where
  "usable_key key =
     (if Kty key = ''RSA''
      then (case parseRSAPublicKey (jwk_N key) (jwk_E key) of
              Inl err \<Rightarrow> None
            | Inr pubKey \<Rightarrow> Some (Kid key, pubKey))
      else None)"


section \<open>Vocabulary for the statements on the rate limiter\<close>

text \<open>
  The tokens a repository has left in the limiter: those of its bucket, or a full
  bucket when none has been made for it yet.
\<close>

definition tokens_of :: "Limiter \<Rightarrow> string \<Rightarrow> rat" where
  "tokens_of l repository =
     (case map_of (limiters l) repository of
        None \<Rightarrow> of_int (burst l)
      | Some lm \<Rightarrow> rate_tokens lm)"


section \<open>Example inputs and vocabulary for the statements on the minter\<close>





section \<open>Properties of the policy engine\<close>

lemma map_of_map_set: "map_of (map_set m k v) = (map_of m)(k \<mapsto> v)"
  by (induction m) auto

lemma map_set_not_Nil: "map_set m k v \<noteq> []"
  by (cases m) (auto split: if_splits)

lemma map_get_bool_Nil: "map_get_bool [] k = False"
  by (simp add: map_get_bool_def)

lemma set_all_true_get:
  "map_get_bool (set_all_true m rs) k = (k \<in> set rs \<or> map_get_bool m k)"
  by (induction rs arbitrary: m) (auto simp: map_get_bool_def map_of_map_set)

lemma set_all_true_Nil: "(set_all_true m rs = []) = (m = [] \<and> rs = [])"
  by (induction rs arbitrary: m) (auto simp: map_set_not_Nil)

text \<open>
  C8. For an enforcer built by \<open>NewEnforcer\<close> from an allow list and a deny list,
  \<open>Evaluate\<close> is exactly this chain of short-circuiting checks: a repository in the
  deny list is denied with the "denied by policy" message, whatever the allow list
  holds; otherwise a non-empty allow list that lacks the repository denies with "not
  in allowlist" (an empty allow list restricts nothing); otherwise, with
  default-branch-only on, a ref that is not the string \<open>refs/heads/\<close> followed by the
  configured branch is denied with the only-default-branch message; otherwise the
  request is allowed (nil error).
\<close>

theorem Evaluate_checks_in_order:
  "Evaluate (NewEnforcer dbo db allow deny) repository ref =
     (if repository \<in> set deny
      then Some (''repository '' @ repository @ '' is denied by policy'')
      else if allow \<noteq> [] \<and> repository \<notin> set allow
      then Some (''repository '' @ repository @ '' is not in allowlist'')
      else if dbo \<and> ref \<noteq> ''refs/heads/'' @ db
      then Some (''only default branch '' @ (''refs/heads/'' @ db) @ '' is allowed, got '' @ ref)
      else None)"
  by (simp add: Evaluate_def NewEnforcer_def set_all_true_get set_all_true_Nil
      map_get_bool_Nil Let_def)

section \<open>Properties of the time arithmetic and of the time validation\<close>

lemma wrap64_id: "- (2 ^ 63) \<le> i \<Longrightarrow> i < 2 ^ 63 \<Longrightarrow> wrap64 i = i"
  by (simp add: wrap64_def)

lemma wrap64_range: "- (2 ^ 63) \<le> wrap64 i \<and> wrap64 i < 2 ^ 63"
proof -
  have "0 \<le> (i + 2 ^ 63) mod (2 ^ 64 :: int)" by simp
  moreover have "(i + 2 ^ 63) mod (2 ^ 64 :: int) < 2 ^ 64" by simp
  ultimately show ?thesis by (simp add: wrap64_def)
qed

lemma time_Unix_in_range:
  assumes "- (2 ^ 63) \<le> sec + unixToInternal" and "sec + unixToInternal < 2 ^ 63"
  shows "time_Unix sec = sec * time_Second"
  using assms by (simp add: time_Unix_def wrap64_def unixToInternal_def wrap64_id)

lemma time_Unix_nsec_0:
  assumes "- (2 ^ 63) \<le> sec" and "sec < 2 ^ 63"
  shows "time_Unix_nsec sec 0 = time_Unix sec"
  using assms by (simp add: time_Unix_nsec_def time_Unix_def wrap64_def unixToInternal_def wrap64_id Let_def time_Second_def)

lemma quot_rem_Second: "quot_Second d * time_Second + rem_Second d = d"
  by (simp add: rem_Second_def)

lemma rem_Second_bounds: "- time_Second < rem_Second d \<and> rem_Second d < time_Second"
proof (cases "0 \<le> d")
  case True
  then have "rem_Second d = d mod time_Second"
    by (simp add: rem_Second_def quot_Second_def minus_div_mult_eq_mod)
  then show ?thesis by (simp add: time_Second_def)
next
  case False
  then have "rem_Second d = - ((- d) mod time_Second)"
    by (simp add: rem_Second_def quot_Second_def minus_div_mult_eq_mod [symmetric] algebra_simps)
  then show ?thesis by (simp add: time_Second_def)
qed

lemma time_Add_in_range:
  assumes "- (2 ^ 63) \<le> (t + d) div time_Second + unixToInternal"
      and "(t + d) div time_Second + unixToInternal < 2 ^ 63"
  shows "time_Add t d = t + d"
proof -
  define S where "S = time_Second"
  have S: "0 < S" by (simp add: S_def time_Second_def)
  define r0 where "r0 = t mod S"
  define nsec0 where "nsec0 = r0 + rem_Second d"
  define dsec where "dsec = (if S \<le> nsec0 then quot_Second d + 1
                  else if nsec0 < 0 then quot_Second d - 1 else quot_Second d)"
  define nsec where "nsec = (if S \<le> nsec0 then nsec0 - S
                  else if nsec0 < 0 then nsec0 + S else nsec0)"
  have r: "0 \<le> r0" "r0 < S" using S by (simp_all add: r0_def)
  have b: "- S < rem_Second d" "rem_Second d < S"
    using rem_Second_bounds [of d] by (simp_all add: S_def)
  have n: "0 \<le> nsec" "nsec < S"
    using r b by (auto simp: nsec_def nsec0_def)
  have "dsec * S + nsec = quot_Second d * S + nsec0"
    by (auto simp: dsec_def nsec_def algebra_simps)
  also have "\<dots> = d + r0"
    using quot_rem_Second [of d] by (simp add: nsec0_def S_def)
  finally have sum: "dsec * S + nsec = d + r0" .
  have t: "t = (t div S) * S + r0" by (simp add: r0_def)
  have total: "(t div S + dsec) * S + nsec = t + d"
    using sum t by (simp add: algebra_simps)
  have "(t + d) div S = (nsec + (t div S + dsec) * S) div S"
    using total by (simp add: add.commute)
  also have "\<dots> = nsec div S + (t div S + dsec)"
    using S by (simp only: div_mult_self1 [OF less_imp_neq [THEN not_sym]])
  also have "nsec div S = 0"
    using n by (simp add: div_pos_pos_trivial)
  finally have q: "(t + d) div S = t div S + dsec" by simp
  have inr: "- (2 ^ 63) \<le> t div S + unixToInternal + dsec \<and> t div S + unixToInternal + dsec < 2 ^ 63"
    using assms q by (simp add: S_def)
  have "time_Add t d = (t div S + unixToInternal + dsec - unixToInternal) * S + nsec"
    using inr
    unfolding time_Add_def Let_def S_def [symmetric] r0_def [symmetric] nsec0_def [symmetric]
      dsec_def [symmetric] nsec_def [symmetric]
    by simp
  then show ?thesis using total by simp
qed








text \<open>
  An \<open>exp\<close> of \<open>2^63\<close> seconds or more (\<open>1e30\<close>, say) does not fit the conversion
  \<^verbatim>\<open>int64(f)\<close> of the library: the expiry becomes the least int64 in seconds, long
  before the epoch, and the token is reported expired.
\<close>

lemma verifyExpiresAt_overflowing_exp:
  assumes "claims ''exp'' = Some (JNum (Float64 False m e))"
      and "0 \<le> e" and "2 ^ 63 \<le> m * 2 ^ nat e"
      and "- (2 ^ 63) < leeway" and "leeway < 2 ^ 63" and "0 \<le> now"
  shows "verifyExpiresAt now leeway claims = [ErrTokenExpired]"
proof -
  define L :: int where "L = - (2 ^ 63)"
  have nz: "m \<noteq> 0" using assms(3) by (cases "m = 0") simp_all
  have "int (2 ^ 63) \<le> int (m * 2 ^ nat e)" using assms(3) by (simp only: of_nat_le_iff)
  then have big: "\<not> int m * 2 ^ nat e < 2 ^ 63" by simp
  have sec: "int64_of_float64 (Float64 False m e) = L"
    using assms(2) big by (simp add: int64_of_float64_def Let_def L_def)
  have "bit_length 0 = 0" by (simp add: bit_length.simps)
  then have nsec: "int64_of_float64 (times_1e9 (Modf_frac (Float64 False m e))) = 0"
    using assms(2) by (simp add: int64_of_float64_def Let_def)
  have "time_Unix_nsec L 0 = time_Unix L"
    by (rule time_Unix_nsec_0) (simp_all add: L_def)
  also have "\<dots> = L * time_Second"
    by (intro time_Unix_in_range) (simp_all add: unixToInternal_def L_def)
  finally have u: "time_Unix_nsec L 0 = L * time_Second" .
  have "newNumericDateFromSeconds (Float64 False m e) = Truncate_Second (L * time_Second)"
    unfolding newNumericDateFromSeconds_def sec nsec u by (rule refl)
  then have d: "newNumericDateFromSeconds (Float64 False m e) = L * time_Second"
    by (simp add: Truncate_Second_def)
  have p: "parseNumericDate claims ''exp'' = Inr (Some (L * time_Second))"
    using assms(1) nz by (simp add: parseNumericDate_def d)
  have a: "time_Add (L * time_Second) leeway = L * time_Second + leeway"
  proof (rule time_Add_in_range)
    have "(L - 2 ^ 34) * time_Second \<le> L * time_Second + leeway"
      using assms(4) by (simp add: time_Second_def algebra_simps)
    then have "((L - 2 ^ 34) * time_Second) div time_Second
                 \<le> (L * time_Second + leeway) div time_Second"
      by (intro zdiv_mono1) (simp_all add: time_Second_def)
    then have lo: "L - 2 ^ 34 \<le> (L * time_Second + leeway) div time_Second"
      by (simp add: time_Second_def)
    have "L * time_Second + leeway \<le> (L + 2 ^ 34) * time_Second"
      using assms(5) by (simp add: time_Second_def algebra_simps)
    then have "(L * time_Second + leeway) div time_Second
                 \<le> ((L + 2 ^ 34) * time_Second) div time_Second"
      by (intro zdiv_mono1) (simp_all add: time_Second_def)
    then have hi: "(L * time_Second + leeway) div time_Second \<le> L + 2 ^ 34"
      by (simp add: time_Second_def)
    show "- (2 ^ 63) \<le> (L * time_Second + leeway) div time_Second + unixToInternal"
      using lo by (simp add: unixToInternal_def L_def)
    show "(L * time_Second + leeway) div time_Second + unixToInternal < 2 ^ 63"
      using hi by (simp add: unixToInternal_def L_def)
  qed
  have "L * time_Second + leeway < 0"
    using assms(5) by (simp add: L_def time_Second_def)
  then have "\<not> now < L * time_Second + leeway" using assms(6) by simp
  then show ?thesis unfolding verifyExpiresAt_def p by (simp add: a)
qed

lemma verifyExpiresAt_1e30:
  assumes "claims ''exp'' = Some (JNum (Float64 False 3552713678800501 48))"
      and "- (2 ^ 63) < leeway" and "leeway < 2 ^ 63" and "0 \<le> now"
  shows "verifyExpiresAt now leeway claims = [ErrTokenExpired]"
  using assms(1) _ _ assms(2-4) by (rule verifyExpiresAt_overflowing_exp) simp_all




section \<open>Properties of the token-exchange handler\<close>

text \<open>
  C2. For every server, limiter state and request body, the calls that
  \<open>handleGitHubOIDC\<close> makes on its collaborators are an initial part of the sequence
  Verify, RateLimit (Allow), Policy (Evaluate), Mint, in this order, and the request
  stops at the first failure: no call at all for a body that does not decode or an
  empty token field, one call (Verify) when the verification fails, two when the
  limiter rejects, three when the policy denies, and all four otherwise.
\<close>

theorem handleGitHubOIDC_stage_order:
  "map stage_of (fst (snd (handleGitHubOIDC s l body))) =
     take (length (fst (snd (handleGitHubOIDC s l body))))
       [StageVerify, StageRateLimit, StagePolicy, StageMint]
   \<and> length (fst (snd (handleGitHubOIDC s l body))) =
     (case body of
        DecodeError \<Rightarrow> 0
      | Decoded req \<Rightarrow>
          if OIDCToken req = [] then 0
          else (case verifier s (OIDCToken req) of
                  Inl err \<Rightarrow> 1
                | Inr claims \<Rightarrow>
                    if \<not> fst (limiter s l (Repository claims)) then 2
                    else (case policy s (Repository claims) (Ref claims) of
                            Some err \<Rightarrow> 3
                          | None \<Rightarrow> 4)))"
  by (simp add: handleGitHubOIDC_def
      split: decoded_body.split sum.split prod.split option.split)

text \<open>
  C3. For every server, limiter state and request body, the error code of the
  response of \<open>handleGitHubOIDC\<close> is fixed by the failure: \<open>invalid_request\<close> for a
  body that does not decode or an empty token field, \<open>invalid_token\<close> when Verify
  fails, \<open>rate_limited\<close> when the limiter rejects, \<open>policy_violation\<close> when the
  policy denies, \<open>internal_error\<close> when Mint fails; a request that passes all stages
  gets no error code.
\<close>

theorem handleGitHubOIDC_error_codes:
  "error_code (fst (handleGitHubOIDC s l body)) =
     (case body of
        DecodeError \<Rightarrow> Some ''invalid_request''
      | Decoded req \<Rightarrow>
          if OIDCToken req = [] then Some ''invalid_request''
          else (case verifier s (OIDCToken req) of
                  Inl err \<Rightarrow> Some ''invalid_token''
                | Inr claims \<Rightarrow>
                    if \<not> fst (limiter s l (Repository claims)) then Some ''rate_limited''
                    else (case policy s (Repository claims) (Ref claims) of
                            Some err \<Rightarrow> Some ''policy_violation''
                          | None \<Rightarrow>
                              (case minter s claims of
                                 Inl err \<Rightarrow> Some ''internal_error''
                               | Inr minted \<Rightarrow> None))))"
  by (simp add: handleGitHubOIDC_def respondError_def
      split: decoded_body.split sum.split prod.split option.split)

section \<open>Properties of the assertion verifier\<close>



lemma fixture_verifier_fields:
  "issuer fixture_verifier = ''https://token.actions.githubusercontent.com''"
  "audience fixture_verifier = ''robohub''"
  "clockSkew fixture_verifier = 60 * time_Second"
  "jwksCache fixture_verifier = fixture_cache"
  "fixture_verifier\<lparr> jwksCache := fixture_cache \<rparr> = fixture_verifier"
  by (simp_all add: fixture_verifier_def)





text \<open>
  C1. For every token whose header declares an algorithm that is not of the RSA
  method (another family, or no registered algorithm at all), for every verifier,
  clock and network answer, \<open>Verify\<close> returns a verification error, makes no call of
  \<open>GetKey\<close> and leaves the key cache as it was.
\<close>

theorem Verify_rejects_other_algorithms_before_key_lookup:
  assumes "tokenString = Some seg"
      and "seg_Header seg ''alg'' = Some (JStr alg)"
      and "GetSigningMethod alg \<noteq> Some SigningMethodRSA"
  shows "\<exists>err. Verify rsa_verify v now http tokenString = (Inl (FailedToVerifyToken err), v, [])"
  using assms
  by (auto simp: Verify_def jwt_Parse_def Verify_keyFunc_def Let_def split: option.split)

text \<open>The theorem at a token that declares the symmetric \<open>HS256\<close>.\<close>

theorem Verify_rejects_other_algorithms_witness:
  "GetSigningMethod ''HS256'' \<noteq> Some SigningMethodRSA
   \<and> (\<exists>err. Verify accept_all fixture_verifier fixture_now DoFailed
         (Some \<lparr> seg_Header = [''alg'' \<mapsto> JStr ''HS256'', ''kid'' \<mapsto> JStr ''k1''],
                  seg_Claims = fixture_claims, seg_Signature = ''sig'' \<rparr>)
       = (Inl (FailedToVerifyToken err), fixture_verifier, []))"
proof -
  let ?seg = "\<lparr> seg_Header = [''alg'' \<mapsto> JStr ''HS256'', ''kid'' \<mapsto> JStr ''k1''],
                 seg_Claims = fixture_claims, seg_Signature = ''sig'' \<rparr>"
  have h2: "seg_Header ?seg ''alg'' = Some (JStr ''HS256'')" by simp
  have h3: "GetSigningMethod ''HS256'' \<noteq> Some SigningMethodRSA"
    by (simp add: GetSigningMethod_def)
  from Verify_rejects_other_algorithms_before_key_lookup [OF refl h2 h3] h3
  show ?thesis by blast
qed




section \<open>Properties of the run identifier\<close>

lemma decimal_not_Nil: "decimal n \<noteq> []"
  by (subst decimal.simps) simp

lemma Sprintf_f0_not_Nil: "Sprintf_f0 f \<noteq> []"
  by (simp add: Sprintf_f0_def decimal_not_Nil)

lemma round_half_even_nearest:
  assumes "e < 0"
  shows "2 * \<bar>int (round_half_even (Float64 sg m e)) * 2 ^ nat (- e) - int m\<bar> \<le> 2 ^ nat (- e)"
proof -
  define d :: nat where "d = 2 ^ nat (- e)"
  define q where "q = m div d"
  define r where "r = m mod d"
  have d: "0 < d" by (simp add: d_def)
  have m: "m = q * d + r" by (simp add: q_def r_def)
  have r: "r < d" using d by (simp add: r_def)
  have n: "round_half_even (Float64 sg m e) = (if 2 * r > d \<or> (2 * r = d \<and> odd q) then q + 1 else q)"
    using assms by (simp add: Let_def d_def q_def r_def)
  have "2 * \<bar>int (round_half_even (Float64 sg m e)) * int d - int m\<bar> \<le> int d"
    unfolding n using r by (auto simp: m algebra_simps)
  then show ?thesis by (simp add: d_def)
qed

lemma extractRunID_cases:
  "extractRunID claims =
     (case claims ''run_id'' of
        Some (JStr s) \<Rightarrow> s
      | Some (JNum f) \<Rightarrow> Sprintf_f0 f
      | _ \<Rightarrow> [])"
  by (simp add: extractRunID_def split: option.split json.split)

lemma Verify_claims_run_id:
  assumes "extractRunID claims = []"
  shows "\<exists>err. Verify_claims v claims = Inl err"
  using assms
  by (auto simp: Verify_claims_def Let_def split: prod.split sum.split)

lemma Verify_fails_of_claims:
  assumes "tokenString = Some seg" and "\<exists>err. Verify_claims v (seg_Claims seg) = Inl err"
  shows "\<exists>err. fst (Verify rsa_verify v now http tokenString) = Inl err"
  using assms
  by (auto simp: Verify_def jwt_Parse_def Let_def split: option.split prod.split sum.split list.split bool.split)


lemma Verify_claims_MissingRunID:
  assumes "Verify_claims v (claims(''run_id'' \<mapsto> JStr r)) = Inr vc"
      and "extractRunID claims = []"
  shows "Verify_claims v claims = Inl MissingRunID"
  using assms
  by (auto simp: Verify_claims_def Let_def extractAudience_def extractTimestamp_def
      split: prod.splits sum.splits if_splits option.splits json.splits)

text \<open>
  C5 does not hold as stated: \<^verbatim>\<open>%.0f\<close> rounds to the nearest integer and keeps the
  sign. The float64 nearest to 42.9 is \<open>6037638250443571 * 2^-47\<close>; it renders as
  \<open>43\<close>. The number \<open>-5\<close> renders with its minus sign.
\<close>

theorem extractRunID_rounds_and_keeps_sign:
  "extractRunID [''run_id'' \<mapsto> JNum (Float64 False 6037638250443571 (- 47))] = ''43''
   \<and> extractRunID [''run_id'' \<mapsto> JNum (Float64 True 5 0)] = ''-5''"
  by (simp add: extractRunID_def Sprintf_f0_def Let_def digit_char_def decimal.simps)

text \<open>
  C5, amended. The run identifier is accepted as a string, returned verbatim, or as a
  number, rendered in decimal as the integer nearest to it (a tie going to the even
  integer; a number that is an integer renders exactly), with a minus sign in front
  when its sign bit is set. A run identifier that is absent, the empty string, or of
  any other type gives the empty result; then \<open>Verify\<close> fails, whatever the rest of
  the token is, and the error is the one of the run identifier whenever the claims
  would have passed with a good run identifier in its place.
\<close>

theorem extractRunID_rendering:
  "(\<forall>s. claims ''run_id'' = Some (JStr s) \<longrightarrow> extractRunID claims = s)
   \<and> (\<forall>sg m e. claims ''run_id'' = Some (JNum (Float64 sg m e)) \<longrightarrow>
         extractRunID claims = (if sg then ''-'' else []) @ decimal (round_half_even (Float64 sg m e))
         \<and> (0 \<le> e \<longrightarrow> round_half_even (Float64 sg m e) = m * 2 ^ nat e)
         \<and> (e < 0 \<longrightarrow>
              2 * \<bar>int (round_half_even (Float64 sg m e)) * 2 ^ nat (- e) - int m\<bar> \<le> 2 ^ nat (- e)))
   \<and> ((\<forall>s. s \<noteq> [] \<longrightarrow> claims ''run_id'' \<noteq> Some (JStr s)) \<and>
       (\<forall>f. claims ''run_id'' \<noteq> Some (JNum f)) \<longrightarrow>
         extractRunID claims = []
         \<and> (\<forall>rsa_verify v now http (seg :: segments). seg_Claims seg = claims \<longrightarrow>
               (\<exists>err. fst (Verify rsa_verify v now http (Some seg)) = Inl err))
         \<and> (\<forall>v r vc. Verify_claims v (claims(''run_id'' \<mapsto> JStr r)) = Inr vc \<longrightarrow>
               Verify_claims v claims = Inl MissingRunID))"
proof (intro conjI allI impI)
  fix s assume "claims ''run_id'' = Some (JStr s)"
  then show "extractRunID claims = s" by (simp add: extractRunID_cases)
next
  fix sg m e assume "claims ''run_id'' = Some (JNum (Float64 sg m e))"
  then show "extractRunID claims = (if sg then ''-'' else []) @ decimal (round_half_even (Float64 sg m e))"
    by (simp add: extractRunID_cases Sprintf_f0_def)
next
  fix sg :: bool and m :: nat and e :: int assume "0 \<le> e"
  then show "round_half_even (Float64 sg m e) = m * 2 ^ nat e" by simp
next
  fix sg :: bool and m :: nat and e :: int assume "e < 0"
  then show "2 * \<bar>int (round_half_even (Float64 sg m e)) * 2 ^ nat (- e) - int m\<bar> \<le> 2 ^ nat (- e)"
    by (rule round_half_even_nearest)
next
  assume bad: "(\<forall>s. s \<noteq> [] \<longrightarrow> claims ''run_id'' \<noteq> Some (JStr s)) \<and>
       (\<forall>f. claims ''run_id'' \<noteq> Some (JNum f))"
  then show empty: "extractRunID claims = []"
    by (auto simp: extractRunID_cases split: option.split json.split)
  {
    fix rsa_verify v now http and seg :: segments assume "seg_Claims seg = claims"
    with empty show "\<exists>err. fst (Verify rsa_verify v now http (Some seg)) = Inl err"
      by (intro Verify_fails_of_claims [OF refl] Verify_claims_run_id) simp
  next
    fix v r vc assume "Verify_claims v (claims(''run_id'' \<mapsto> JStr r)) = Inr vc"
    then show "Verify_claims v claims = Inl MissingRunID"
      using empty by (rule Verify_claims_MissingRunID)
  }
qed

text \<open>
  The theorem at the string and the number \<open>123456789\<close> of the repository's tests, and
  at a run identifier that is a boolean.
\<close>

theorem extractRunID_rendering_witness:
  "extractRunID fixture_claims = ''123456789''
   \<and> extractRunID (fixture_claims(''run_id'' \<mapsto> JNum (Float64 False 123456789 0))) = ''123456789''
   \<and> Verify_claims fixture_verifier (fixture_claims(''run_id'' \<mapsto> JBool True)) = Inl MissingRunID"
proof -
  have s: "fixture_claims ''run_id'' = Some (JStr ''123456789'')"
    by (simp add: fixture_claims_def)
  have a: "extractRunID fixture_claims = ''123456789''"
    using extractRunID_rendering [of fixture_claims] s by blast
  let ?num = "fixture_claims(''run_id'' \<mapsto> JNum (Float64 False 123456789 0))"
  have n: "?num ''run_id'' = Some (JNum (Float64 False 123456789 0))" by simp
  have "extractRunID ?num =
          (if False then ''-'' else []) @ decimal (round_half_even (Float64 False 123456789 0))"
    using extractRunID_rendering [of ?num] n by blast
  then have b: "extractRunID ?num = ''123456789''"
    by (simp add: digit_char_def decimal.simps)
  let ?bad = "fixture_claims(''run_id'' \<mapsto> JBool True)"
  have good: "Verify_claims fixture_verifier (?bad(''run_id'' \<mapsto> JStr ''1'')) =
          Inr \<lparr> Repository = ''owner/repo'', Ref = ''refs/heads/main'', Actor = ''octocat'',
                RunID = ''1'',
                Workflow = ''owner/repo/.github/workflows/ci.yml@refs/heads/main'',
                IssuedAt = 940 * time_Second, ExpiresAt = 2000 * time_Second \<rparr>"
    by (simp add: Verify_claims_def fixture_claims_def fixture_verifier_fields extractAudience_def
        extractRunID_def extractTimestamp_def int64_of_float64_def time_Unix_def wrap64_def unixToInternal_def Let_def)
  have h: "(\<forall>s. s \<noteq> [] \<longrightarrow> ?bad ''run_id'' \<noteq> Some (JStr s)) \<and>
           (\<forall>f. ?bad ''run_id'' \<noteq> Some (JNum f))" by simp
  have c: "Verify_claims fixture_verifier ?bad = Inl MissingRunID"
    using extractRunID_rendering [of ?bad] h good by blast
  from a b c show ?thesis by simp
qed

section \<open>Properties of the timestamp claims\<close>


lemma Validator_Validate_no_time_claims:
  "claims ''exp'' = None \<Longrightarrow> claims ''nbf'' = None \<Longrightarrow> Validator_Validate now leeway claims = []"
  by (simp add: Validator_Validate_def verifyExpiresAt_def verifyNotBefore_def parseNumericDate_def)







section \<open>Properties of the key cache\<close>

lemma parse_keys_map_filter:
  "parse_keys m entries = m ++ map_of (rev (List.map_filter usable_key entries))"
proof (induction entries arbitrary: m)
  case Nil
  then show ?case by (simp add: List.map_filter_simps)
next
  case (Cons key rest)
  show ?case
  proof (cases "usable_key key")
    case None
    then have "parse_keys m (key # rest) = parse_keys m rest"
      by (auto simp: usable_key_def split: if_splits sum.splits)
    with None Cons show ?thesis by (simp add: List.map_filter_simps)
  next
    case (Some kv)
    obtain k pk where kv: "kv = (k, pk)" by (cases kv)
    from Some kv have "parse_keys m (key # rest) = parse_keys (m(k \<mapsto> pk)) rest"
      by (auto simp: usable_key_def split: if_splits sum.splits)
    also have "\<dots> = m(k \<mapsto> pk) ++ map_of (rev (List.map_filter usable_key rest))"
      by (rule Cons)
    also have "\<dots> = m ++ map_of (rev (List.map_filter usable_key (key # rest)))"
      using Some kv by (simp add: List.map_filter_simps map_add_upd_left)
    finally show ?thesis .
  qed
qed

lemma fetchJWKS_failed:
  assumes "fetch_fails http"
  shows "fetchJWKS c now http =
           (Some (case http of
                    NewRequestFailed \<Rightarrow> FailedToCreateRequest
                  | DoFailed \<Rightarrow> FailedToFetchJWKS
                  | Response code body \<Rightarrow>
                      if code \<noteq> 200 then UnexpectedStatusCode code
                      else (case body of
                              ReadFailed \<Rightarrow> FailedToReadBody
                            | Payload p \<Rightarrow> FailedToUnmarshalJWKS)), c)"
  using assms
  by (auto simp: fetch_fails_def fetchJWKS_def split: http_result.splits body_result.splits option.splits)

text \<open>The exponent \<open>AQAB\<close> of the repository's test decodes to 65537.\<close>

lemma parseRSAPublicKey_AQAB:
  "parseRSAPublicKey ''AQAB'' ''AQAB'' = Inr \<lparr> rsa_N = 65537, rsa_E = 65537 \<rparr>"
  by (simp add: parseRSAPublicKey_def DecodeString_def b64url_value_def)

text \<open>
  C7. For every cache state, clock and key identifier, and every fetch outcome that
  is an error, \<open>GetKey\<close> leaves the cache (key set and fetch timestamp) exactly as it
  was; it returns the fetch error, unless the key is cached and fresh, in which case
  no fetch is made and the cached key is returned. A payload that decodes never makes
  the fetch fail: the new key set holds the keys of the entries of type \<open>RSA\<close> whose
  modulus and exponent decode (a later entry replacing an earlier one of the same
  identifier), every other entry is skipped.
\<close>

theorem GetKey_failed_fetch_keeps_cache:
  assumes "fetch_fails http"
  shows "GetKey c now http kid =
           (case cached c now kid of
              Some key \<Rightarrow> (Inr key, c)
            | None \<Rightarrow>
                (Inl (FetchError
                        (case http of
                           NewRequestFailed \<Rightarrow> FailedToCreateRequest
                         | DoFailed \<Rightarrow> FailedToFetchJWKS
                         | Response code body \<Rightarrow>
                             if code \<noteq> 200 then UnexpectedStatusCode code
                             else (case body of
                                     ReadFailed \<Rightarrow> FailedToReadBody
                                   | Payload p \<Rightarrow> FailedToUnmarshalJWKS))), c))
         \<and> fetchJWKS c now (Response 200 (Payload (Some entries))) =
             (None, c\<lparr> keys := map_of (rev (List.map_filter usable_key entries)), fetchedAt := now \<rparr>)"
proof (rule conjI)
  show "GetKey c now http kid =
           (case cached c now kid of
              Some key \<Rightarrow> (Inr key, c)
            | None \<Rightarrow>
                (Inl (FetchError
                        (case http of
                           NewRequestFailed \<Rightarrow> FailedToCreateRequest
                         | DoFailed \<Rightarrow> FailedToFetchJWKS
                         | Response code body \<Rightarrow>
                             if code \<noteq> 200 then UnexpectedStatusCode code
                             else (case body of
                                     ReadFailed \<Rightarrow> FailedToReadBody
                                   | Payload p \<Rightarrow> FailedToUnmarshalJWKS))), c))"
    by (simp add: GetKey_def fetchJWKS_failed [OF assms] split: option.split)
  show "fetchJWKS c now (Response 200 (Payload (Some entries))) =
             (None, c\<lparr> keys := map_of (rev (List.map_filter usable_key entries)), fetchedAt := now \<rparr>)"
    by (simp add: fetchJWKS_def parse_keys_map_filter)
qed

text \<open>
  The theorem at the example cache, stale at 10000 seconds, with a 503 answer; and at
  a payload with an entry of another key type, one whose modulus does not decode, and
  a good one.
\<close>

theorem GetKey_failed_fetch_keeps_cache_witness:
  "fetch_fails (Response 503 (Payload None))
   \<and> GetKey fixture_cache (10000 * time_Second) (Response 503 (Payload None)) ''k1'' =
       (Inl (FetchError (UnexpectedStatusCode 503)), fixture_cache)
   \<and> fetchJWKS fixture_cache (10000 * time_Second)
         (Response 200 (Payload (Some
            [\<lparr> Kid = ''k0'', Kty = ''EC'', Use = ''sig'', jwk_N = [], jwk_E = [] \<rparr>,
             \<lparr> Kid = ''k1'', Kty = ''RSA'', Use = ''sig'', jwk_N = ''%%%'', jwk_E = ''AQAB'' \<rparr>,
             \<lparr> Kid = ''k2'', Kty = ''RSA'', Use = ''sig'', jwk_N = ''AQAB'', jwk_E = ''AQAB'' \<rparr>]))) =
       (None, fixture_cache\<lparr> keys := [''k2'' \<mapsto> \<lparr> rsa_N = 65537, rsa_E = 65537 \<rparr>],
                              fetchedAt := 10000 * time_Second \<rparr>)"
proof -
  let ?entries =
    "[\<lparr> Kid = ''k0'', Kty = ''EC'', Use = ''sig'', jwk_N = [], jwk_E = [] \<rparr>,
      \<lparr> Kid = ''k1'', Kty = ''RSA'', Use = ''sig'', jwk_N = ''%%%'', jwk_E = ''AQAB'' \<rparr>,
      \<lparr> Kid = ''k2'', Kty = ''RSA'', Use = ''sig'', jwk_N = ''AQAB'', jwk_E = ''AQAB'' \<rparr>]"
  have f: "fetch_fails (Response 503 (Payload None))" by (simp add: fetch_fails_def)
  have stale: "cached fixture_cache (10000 * time_Second) ''k1'' = None"
    by (simp add: cached_def fixture_cache_def time_Since_def time_Sub_def time_Second_def
        maxDuration_def minDuration_def)
  have bad: "DecodeString ''%%%'' = None"
    by (simp add: DecodeString_def b64url_value_def)
  have good: "DecodeString ''AQAB'' = Some [1, 0, 1]"
    by (simp add: DecodeString_def b64url_value_def)
  have ks: "map_of (rev (List.map_filter usable_key ?entries))
          = [''k2'' \<mapsto> \<lparr> rsa_N = 65537, rsa_E = 65537 \<rparr>]"
    by (simp add: List.map_filter_simps usable_key_def parseRSAPublicKey_def bad good)
  have "GetKey fixture_cache (10000 * time_Second) (Response 503 (Payload None)) ''k1'' =
       (Inl (FetchError (UnexpectedStatusCode 503)), fixture_cache)
   \<and> fetchJWKS fixture_cache (10000 * time_Second) (Response 200 (Payload (Some ?entries))) =
       (None, fixture_cache\<lparr> keys := [''k2'' \<mapsto> \<lparr> rsa_N = 65537, rsa_E = 65537 \<rparr>],
                              fetchedAt := 10000 * time_Second \<rparr>)"
    using GetKey_failed_fetch_keeps_cache [OF f, where c = fixture_cache and now = "10000 * time_Second"
      and kid = "''k1''" and entries = ?entries]
    unfolding stale ks by simp
  with f show ?thesis by (rule conjI)
qed

section \<open>Properties of the rate limiter\<close>

lemma map_set_same: "map_of m k = Some v \<Longrightarrow> map_set m k v = m"
  by (induction m) (auto split: if_splits)

lemma map_set_twice: "map_set (map_set m k v) k w = map_set m k w"
  by (induction m) auto

lemma rate_Allow_no_refill:
  assumes "rate_tokens b = of_nat j" and "int j \<le> rate_burst b"
      and "t \<le> rate_last b \<or> rate_tokens b = of_int (rate_burst b)"
      and "0 \<le> rate_limit b"
  shows "rate_Allow b t =
           (if 1 \<le> j
            then (True, b\<lparr> rate_tokens := of_nat (j - 1), rate_last := max t (rate_last b) \<rparr>)
            else (False, b))"
proof -
  define refill where
    "refill = rate_limit b * of_int (max 0 (t - rate_last b)) / of_int time_Second"
  have "0 \<le> refill"
    using assms(4) by (simp add: refill_def time_Second_def)
  moreover have "t \<le> rate_last b \<Longrightarrow> refill = 0"
    by (simp add: refill_def)
  moreover have "(of_nat j :: rat) \<le> of_int (rate_burst b)"
    using assms(2) by (metis of_int_le_iff of_int_of_nat_eq)
  ultimately have tokens: "min (of_int (rate_burst b)) (rate_tokens b + refill) = of_nat j"
    using assms(1,3) by (auto simp: min_def)
  have eq: "rate_Allow b t =
           (if 1 \<le> (of_nat j :: rat)
            then (True, b\<lparr> rate_tokens := of_nat j - 1, rate_last := max t (rate_last b) \<rparr>)
            else (False, b))"
    unfolding rate_Allow_def Let_def refill_def [symmetric] tokens by (rule refl)
  show ?thesis
  proof (cases "1 \<le> j")
    case True
    then have "1 \<le> (of_nat j :: rat)" by simp
    moreover from True have "(of_nat j :: rat) - 1 = of_nat (j - 1)"
      by (simp add: of_nat_diff)
    ultimately show ?thesis using True unfolding eq by simp
  next
    case False
    then have "\<not> 1 \<le> (of_nat j :: rat)" by simp
    then show ?thesis using False unfolding eq by simp
  qed
qed

lemma Allow_existing:
  assumes "map_of (limiters l) k = Some b"
  shows "Allow l t k =
           (fst (rate_Allow b t), l\<lparr> limiters := map_set (limiters l) k (snd (rate_Allow b t)) \<rparr>)"
  using assms by (simp add: Allow_def getLimiter_def split: prod.split)

lemma Allow_fresh:
  assumes "map_of (limiters l) k = None"
  shows "Allow l t k =
           Allow (l\<lparr> limiters := map_set (limiters l) k (rate_NewLimiter (rps l) (burst l)) \<rparr>) t k"
  using assms
  by (simp add: Allow_def getLimiter_def Let_def map_of_map_set map_set_twice split: prod.split)


lemma Allow_calls_Cons:
  "Allow_calls l k (t # ts) =
     (fst (Allow l t k) # fst (Allow_calls (snd (Allow l t k)) k ts),
      snd (Allow_calls (snd (Allow l t k)) k ts))"
  by (simp split: prod.split)

lemma Allow_calls_existing:
  assumes "map_of (limiters l) k = Some b"
      and "rate_tokens b = of_nat j" and "int j \<le> rate_burst b"
      and "t \<le> rate_last b \<or> rate_tokens b = of_int (rate_burst b)"
      and "0 \<le> rate_limit b"
  shows "fst (Allow_calls l k (replicate n t)) = replicate (min n j) True @ replicate (n - j) False
         \<and> tokens_of (snd (Allow_calls l k (replicate n t))) k = of_nat (j - n)"
  using assms
proof (induction n arbitrary: l b j)
  case 0
  then show ?case by (simp add: tokens_of_def)
next
  case (Suc n)
  show ?case
  proof (cases j)
    case (Suc j')
    define b' where "b' = b\<lparr> rate_tokens := of_nat j', rate_last := max t (rate_last b) \<rparr>"
    define l' where "l' = l\<lparr> limiters := map_set (limiters l) k b' \<rparr>"
    have "rate_Allow b t = (True, b')"
      using rate_Allow_no_refill [OF Suc.prems(2-5)] Suc by (simp add: b'_def)
    then have step: "Allow l t k = (True, l')"
      using Suc.prems(1) by (simp add: Allow_existing l'_def)
    have ih: "fst (Allow_calls l' k (replicate n t)) =
            replicate (min n j') True @ replicate (n - j') False
          \<and> tokens_of (snd (Allow_calls l' k (replicate n t))) k = of_nat (j' - n)"
    proof (rule Suc.IH)
      show "map_of (limiters l') k = Some b'" by (simp add: l'_def map_of_map_set)
      show "rate_tokens b' = of_nat j'" by (simp add: b'_def)
      show "int j' \<le> rate_burst b'" using Suc.prems(3) Suc by (simp add: b'_def)
      show "t \<le> rate_last b' \<or> rate_tokens b' = of_int (rate_burst b')" by (simp add: b'_def)
      show "0 \<le> rate_limit b'" using Suc.prems(5) by (simp add: b'_def)
    qed
    show ?thesis
      unfolding replicate_Suc Allow_calls_Cons step fst_conv snd_conv
      using ih Suc by simp
  next
    case 0
    have "rate_Allow b t = (False, b)"
      using rate_Allow_no_refill [OF Suc.prems(2-5)] 0 by simp
    then have step: "Allow l t k = (False, l)"
      using Suc.prems(1) by (simp add: Allow_existing map_set_same)
    have ih: "fst (Allow_calls l k (replicate n t)) =
            replicate (min n j) True @ replicate (n - j) False
          \<and> tokens_of (snd (Allow_calls l k (replicate n t))) k = of_nat (j - n)"
      using Suc.prems by (rule Suc.IH)
    show ?thesis
      unfolding replicate_Suc Allow_calls_Cons step fst_conv snd_conv
      using ih 0 by simp
  qed
qed


lemma Allow_calls_fresh:
  assumes "map_of (limiters l) k = None" and "0 \<le> rps l" and "burst l = int N"
  shows "fst (Allow_calls l k (replicate n t)) = replicate (min n N) True @ replicate (n - N) False
         \<and> tokens_of (snd (Allow_calls l k (replicate n t))) k = of_nat (N - n)"
proof (cases n)
  case 0
  then show ?thesis using assms by (simp add: tokens_of_def)
next
  case (Suc n')
  define b where "b = rate_NewLimiter (rps l) (burst l)"
  define l' where "l' = l\<lparr> limiters := map_set (limiters l) k b \<rparr>"
  have same: "Allow_calls l k (replicate n t) = Allow_calls l' k (replicate n t)"
    unfolding Suc replicate_Suc Allow_calls_Cons Allow_fresh [OF assms(1)] l'_def b_def
    by (rule refl)
  have "fst (Allow_calls l' k (replicate n t)) = replicate (min n N) True @ replicate (n - N) False
         \<and> tokens_of (snd (Allow_calls l' k (replicate n t))) k = of_nat (N - n)"
  proof (rule Allow_calls_existing)
    show "map_of (limiters l') k = Some b" by (simp add: l'_def map_of_map_set)
    show "rate_tokens b = of_nat N" using assms(3) by (simp add: b_def rate_NewLimiter_def)
    show "int N \<le> rate_burst b" using assms(3) by (simp add: b_def rate_NewLimiter_def)
    show "t \<le> rate_last b \<or> rate_tokens b = of_int (rate_burst b)"
      by (simp add: b_def rate_NewLimiter_def)
    show "0 \<le> rate_limit b" using assms(2) by (simp add: b_def rate_NewLimiter_def)
  qed
  then show ?thesis unfolding same .
qed

text \<open>
  C9. For every repository key, every burst capacity \<open>N\<close> and every clock reading,
  a limiter made with rate 1 token per second and burst \<open>N\<close> answers \<open>N + 1\<close> calls of
  \<open>Allow\<close> for that key, all at the same clock reading, with \<open>true\<close> exactly \<open>N\<close>
  times and then \<open>false\<close>; the key has no token left after the \<open>N\<close> calls and still
  none (not a negative count) after the rejected one: the rejected call consumes
  nothing.
\<close>

theorem Allow_burst_then_reject:
  "fst (Allow_calls (NewLimiter 1 (int N)) repository (replicate (Suc N) now)) =
     replicate N True @ [False]
   \<and> tokens_of (snd (Allow_calls (NewLimiter 1 (int N)) repository (replicate N now))) repository = 0
   \<and> tokens_of (snd (Allow_calls (NewLimiter 1 (int N)) repository (replicate (Suc N) now)))
        repository = 0"
proof -
  have fresh: "map_of (limiters (NewLimiter 1 (int N))) repository = None"
    "0 \<le> rps (NewLimiter 1 (int N))" "burst (NewLimiter 1 (int N)) = int N"
    by (simp_all add: NewLimiter_def)
  from Allow_calls_fresh [OF fresh, of "Suc N" now] Allow_calls_fresh [OF fresh, of N now]
  show ?thesis by simp
qed

section \<open>Properties of the credential minter\<close>











end
